theory Spec2Isabelle
  imports Complex_Main "HOL-Library.AList" "HOL-Library.Multiset"
begin

section \<open>JavaScript values read by the accounting code\<close>

text \<open>
  The application keeps its data in one object \<open>state\<close> that is parsed from JSON
  (local storage or an imported backup file) and edited through forms. The fields the
  accounting functions read may therefore hold any primitive JSON value or be absent.

  A JavaScript number is modelled as a rational or one of the three non-finite values.
  Arithmetic on finite numbers is exact in this model: the rounding and the overflow of
  IEEE-754 doubles are not modelled, and the two zeros are one value.
\<close>

datatype jsnum = Finite rat | NaN | PosInfinity | NegInfinity

datatype jsval =
    JUndefined
  | JNull
  | JBool bool
  | JNum jsnum
  | JStr string

text \<open>\<open>!v\<close> is false exactly for the truthy values.\<close>

fun truthy :: "jsval \<Rightarrow> bool" where
  "truthy JUndefined = False"
| "truthy JNull = False"
| "truthy (JBool b) = b"
| "truthy (JNum (Finite r)) = (r \<noteq> 0)"
| "truthy (JNum NaN) = False"
| "truthy (JNum PosInfinity) = True"
| "truthy (JNum NegInfinity) = True"
| "truthy (JStr s) = (s \<noteq> [])"

text \<open>\<open>a === b\<close> on primitives: equal values of the same type, \<open>NaN\<close> unequal to itself.\<close>

definition strictEq :: "jsval \<Rightarrow> jsval \<Rightarrow> bool" where
  "strictEq a b = (a = b \<and> a \<noteq> JNum NaN)"

text \<open>\<open>a || b\<close>.\<close>

definition jsOr :: "jsval \<Rightarrow> jsval \<Rightarrow> jsval" where
  "jsOr a b = (if truthy a then a else b)"

subsection \<open>\<open>Number(v)\<close>\<close>

text \<open>
  The conversion of a string follows the grammar \<open>StringNumericLiteral\<close> of ECMA-262:
  white space is trimmed, the empty string is \<open>0\<close>, a literal is a signed decimal
  (with optional fraction and exponent), \<open>Infinity\<close> with an optional sign, or an
  unsigned binary, octal or hexadecimal integer; everything else is \<open>NaN\<close>.
  Characters are code units below 256. A decimal too large for a double is infinite.
\<close>

definition isStrWhiteSpaceChar :: "char \<Rightarrow> bool" where
  "isStrWhiteSpaceChar c = ((of_char c :: nat) \<in> {9, 10, 11, 12, 13, 32, 160})"

definition trimString :: "string \<Rightarrow> string" where
  "trimString s = rev (dropWhile isStrWhiteSpaceChar (rev (dropWhile isStrWhiteSpaceChar s)))"

definition digitValue :: "nat \<Rightarrow> char \<Rightarrow> nat option" where
  "digitValue radix c =
     (let n = (of_char c :: nat);
          d = (if 48 \<le> n \<and> n \<le> 57 then Some (n - 48)
               else if 97 \<le> n \<and> n \<le> 102 then Some (n - 87)
               else if 65 \<le> n \<and> n \<le> 70 then Some (n - 55)
               else None)
      in case d of None \<Rightarrow> None | Some v \<Rightarrow> if v < radix then Some v else None)"

fun digitsValue :: "nat \<Rightarrow> string \<Rightarrow> nat \<Rightarrow> nat option" where
  "digitsValue radix [] acc = Some acc"
| "digitsValue radix (c # cs) acc =
     (case digitValue radix c of
        None \<Rightarrow> None
      | Some d \<Rightarrow> digitsValue radix cs (acc * radix + d))"

definition isDecimalDigit :: "char \<Rightarrow> bool" where
  "isDecimalDigit c = (digitValue 10 c \<noteq> None)"

text \<open>One or more digits of the radix, and nothing else.\<close>

definition integerLiteral :: "nat \<Rightarrow> string \<Rightarrow> nat option" where
  "integerLiteral radix s = (if s = [] then None else digitsValue radix s 0)"

definition exponentPart :: "string \<Rightarrow> int option" where
  "exponentPart s =
     (case s of
        [] \<Rightarrow> Some 0
      | c # r \<Rightarrow>
          if c = CHR ''e'' \<or> c = CHR ''E'' then
            (case r of
               [] \<Rightarrow> None
             | d # r' \<Rightarrow>
                 if d = CHR ''+'' then map_option int (integerLiteral 10 r')
                 else if d = CHR ''-'' then map_option (\<lambda>n. - int n) (integerLiteral 10 r')
                 else map_option int (integerLiteral 10 r))
          else None)"

definition scale10 :: "nat \<Rightarrow> int \<Rightarrow> rat" where
  "scale10 m e = (if 0 \<le> e then of_nat m * 10 ^ nat e else of_nat m / 10 ^ nat (- e))"

definition strUnsignedDecimalLiteral :: "string \<Rightarrow> rat option" where
  "strUnsignedDecimalLiteral s =
     (let ip = takeWhile isDecimalDigit s;
          r1 = dropWhile isDecimalDigit s;
          hasDot = (r1 \<noteq> [] \<and> hd r1 = CHR ''.'');
          fp = (if hasDot then takeWhile isDecimalDigit (tl r1) else []);
          r2 = (if hasDot then dropWhile isDecimalDigit (tl r1) else r1)
      in if ip = [] \<and> fp = [] then None
         else case (digitsValue 10 (ip @ fp) 0, exponentPart r2) of
                (Some m, Some e) \<Rightarrow> Some (scale10 m (e - int (length fp)))
              | _ \<Rightarrow> None)"

definition nonDecimalIntegerLiteral :: "string \<Rightarrow> nat option" where
  "nonDecimalIntegerLiteral s =
     (case s of
        z # x # r \<Rightarrow>
          if z \<noteq> CHR ''0'' then None
          else if x = CHR ''x'' \<or> x = CHR ''X'' then integerLiteral 16 r
          else if x = CHR ''o'' \<or> x = CHR ''O'' then integerLiteral 8 r
          else if x = CHR ''b'' \<or> x = CHR ''B'' then integerLiteral 2 r
          else None
      | _ \<Rightarrow> None)"

text \<open>The largest double is \<open>2^1024 - 2^971\<close>; from \<open>2^1024 - 2^970\<close> on a value rounds to infinity.\<close>

definition roundOverflow :: "rat \<Rightarrow> jsnum" where
  "roundOverflow r =
     (if 2 ^ 1024 - 2 ^ 970 \<le> r then PosInfinity
      else if r \<le> - (2 ^ 1024 - 2 ^ 970) then NegInfinity
      else Finite r)"

definition strDecimalLiteral :: "string \<Rightarrow> jsnum" where
  "strDecimalLiteral s =
     (let neg = (s \<noteq> [] \<and> hd s = CHR ''-'');
          u = (if s \<noteq> [] \<and> (hd s = CHR ''+'' \<or> hd s = CHR ''-'') then tl s else s)
      in if u = ''Infinity'' then (if neg then NegInfinity else PosInfinity)
         else case strUnsignedDecimalLiteral u of
                None \<Rightarrow> NaN
              | Some r \<Rightarrow> roundOverflow (if neg then - r else r))"

definition StringToNumber :: "string \<Rightarrow> jsnum" where
  "StringToNumber s =
     (let t = trimString s
      in if t = [] then Finite 0
         else case nonDecimalIntegerLiteral t of
                Some n \<Rightarrow> roundOverflow (of_nat n)
              | None \<Rightarrow> strDecimalLiteral t)"

fun Number :: "jsval \<Rightarrow> jsnum" where
  "Number JUndefined = NaN"
| "Number JNull = Finite 0"
| "Number (JBool b) = (if b then Finite 1 else Finite 0)"
| "Number (JNum n) = n"
| "Number (JStr s) = StringToNumber s"

fun isFinite :: "jsnum \<Rightarrow> bool" where
  "isFinite (Finite r) = True"
| "isFinite n = False"

text \<open>
  \<^verbatim>\<open>const safeNum = (v) => { const n = Number(v); return Number.isFinite(n) ? n : 0; };\<close>
  The result is always a finite number, so it is returned as a rational.
\<close>

definition safeNum :: "jsval \<Rightarrow> rat" where
  "safeNum v = (let n = Number v in if isFinite n then (case n of Finite r \<Rightarrow> r | _ \<Rightarrow> 0) else 0)"

section \<open>The record store\<close>

text \<open>
  \<^verbatim>\<open>clients: [], // {id,name,phone,address,openingBalance,notes}\<close>
  \<^verbatim>\<open>// ledger row: {id,date,type,partyType,partyId,ref,desc,category,amount,paid,method}\<close>
  Only the fields the accounting functions read are kept. A field holds any primitive
  value; an absent field is \<open>JUndefined\<close>.
\<close>

record party =
  p_id :: jsval
  p_name :: jsval
  p_openingBalance :: jsval

record entry =
  type :: jsval
  partyType :: jsval
  partyId :: jsval
  category :: jsval
  amount :: jsval
  paid :: jsval

record company_info =
  c_name :: string
  currency :: string
  fiscalYearStartMonth :: nat

record user =
  username :: string
  password :: string
  role :: string

text \<open>
  The state object. Each top-level key is either absent (\<open>None\<close>: the key is read as
  \<open>undefined\<close>, or holds \<open>null\<close>) or present with the shape the application writes: an
  object for \<open>company\<close>, an array of objects for the other four.
\<close>

record snapshot =
  company :: "company_info option"
  users :: "user list option"
  clients :: "party list option"
  vendors :: "party list option"
  ledger :: "entry list option"

definition defaultState :: snapshot where
  "defaultState =
     \<lparr> company = Some \<lparr> c_name = ''My Business'', currency = ''PKR'', fiscalYearStartMonth = 7 \<rparr>,
       users = Some [ \<lparr> username = ''admin'', password = ''admin123'', role = ''admin'' \<rparr>,
                      \<lparr> username = ''manager'', password = ''manager123'', role = ''manager'' \<rparr> ],
       clients = Some [],
       vendors = Some [],
       ledger = Some [] \<rparr>"

text \<open>
  Exceptions. Reading a property of \<open>undefined\<close> or \<open>null\<close>, calling a method of
  \<open>undefined\<close> or iterating over it throws a \<open>TypeError\<close>; nothing else in the
  accounting functions can throw. \<open>JSON.parse\<close> throws a \<open>SyntaxError\<close>, and the import
  throws \<open>new Error("Invalid file")\<close> itself.
\<close>

datatype error = TypeError | SyntaxError | Error string

text \<open>Sequencing of computations that may throw.\<close>

definition bindE :: "error + 'a \<Rightarrow> ('a \<Rightarrow> error + 'b) \<Rightarrow> error + 'b" where
  "bindE r f = (case r of Inl err \<Rightarrow> Inl err | Inr x \<Rightarrow> f x)"

text \<open>Iterating over, or calling an array method of, a top-level key that may be absent.\<close>

definition theArray :: "'a list option \<Rightarrow> error + 'a list" where
  "theArray a = (case a of None \<Rightarrow> Inl TypeError | Some xs \<Rightarrow> Inr xs)"

section \<open>Accounting calculations\<close>

definition partyName :: "jsval \<Rightarrow> jsval \<Rightarrow> snapshot \<Rightarrow> error + jsval" where
  "partyName pType pId st =
     (if \<not> truthy pType \<or> \<not> truthy pId then Inr (JStr ''-'')
      else bindE (theArray (if strictEq pType (JStr ''client'') then clients st else vendors st))
             (\<lambda>list. Inr (jsOr (case find (\<lambda>x. strictEq (p_id x) pId) list of
                                  None \<Rightarrow> JUndefined
                                | Some p \<Rightarrow> p_name p)
                               (JStr ''-''))))"

definition openingBalance :: "jsval \<Rightarrow> jsval \<Rightarrow> snapshot \<Rightarrow> error + rat" where
  "openingBalance pType pId st =
     (if \<not> truthy pType \<or> \<not> truthy pId then Inr 0
      else bindE (theArray (if strictEq pType (JStr ''client'') then clients st else vendors st))
             (\<lambda>list. Inr (safeNum (case find (\<lambda>x. strictEq (p_id x) pId) list of
                                     None \<Rightarrow> JUndefined
                                   | Some p \<Rightarrow> p_openingBalance p))))"

definition sumPaid :: "jsval \<Rightarrow> snapshot \<Rightarrow> error + rat" where
  "sumPaid ty st =
     bindE (theArray (ledger st)) (\<lambda>l.
       Inr (foldl (\<lambda>a t. a + safeNum (paid t)) 0 (filter (\<lambda>t. strictEq (type t) ty) l)))"

definition purchasesByCategory :: "jsval \<Rightarrow> snapshot \<Rightarrow> error + rat" where
  "purchasesByCategory cat st =
     bindE (theArray (ledger st)) (\<lambda>l.
       Inr (foldl (\<lambda>a t. a + safeNum (amount t)) 0
              (filter (\<lambda>t. strictEq (type t) (JStr ''purchase'')
                         \<and> strictEq (jsOr (category t) (JStr [])) cat) l)))"

subsection \<open>Receivables and payables\<close>

text \<open>
  A JavaScript \<open>Map\<close> from party ids to numbers, in insertion order: \<open>set\<close> replaces the
  value of a key that is present and appends a new key otherwise. Keys are compared by
  \<open>SameValueZero\<close>, which on the modelled values is equality.
\<close>

type_synonym jsmap = "(jsval \<times> rat) list"

definition mapSet :: "jsval \<Rightarrow> rat \<Rightarrow> jsmap \<Rightarrow> jsmap" where
  "mapSet k v m = AList.update k v m"

definition mapGet :: "jsmap \<Rightarrow> jsval \<Rightarrow> rat option" where
  "mapGet m k = map_of m k"

definition mapValues :: "jsmap \<Rightarrow> rat list" where
  "mapValues m = map snd m"

text \<open>
  One round of the loop over the ledger in \<open>calcReceivables\<close> (\<open>own = "client"\<close>,
  \<open>credit = "sale"\<close>, \<open>settle = "cash_in"\<close>) and in \<open>calcPayables\<close> (\<open>"vendor"\<close>,
  \<open>"purchase"\<close>, \<open>"cash_out"\<close>): the two loops differ in these three literals only.
\<close>

definition partyStep :: "string \<Rightarrow> string \<Rightarrow> string \<Rightarrow> jsmap \<Rightarrow> entry \<Rightarrow> jsmap" where
  "partyStep own credit settle m t =
     (if \<not> strictEq (partyType t) (JStr own) \<or> \<not> truthy (partyId t) then m
      else
        let cur = (case mapGet m (partyId t) of Some v \<Rightarrow> v | None \<Rightarrow> 0);
            m1 = (if strictEq (type t) (JStr credit)
                  then mapSet (partyId t) (cur + safeNum (amount t) - safeNum (paid t)) m
                  else m);
            m2 = (if strictEq (type t) (JStr settle)
                  then mapSet (partyId t) (cur - safeNum (amount t)) m1
                  else m1)
        in m2)"

text \<open>
  The first loop of both functions:
  \<^verbatim>\<open>for (const c of state.clients) byClient.set(c.id, safeNum(c.openingBalance));\<close>
\<close>

definition openingMap :: "party list \<Rightarrow> jsmap" where
  "openingMap ps = foldl (\<lambda>m c. mapSet (p_id c) (safeNum (p_openingBalance c)) m) [] ps"

definition calcReceivables :: "snapshot \<Rightarrow> error + rat" where
  "calcReceivables st =
     bindE (theArray (clients st)) (\<lambda>cs.
       let byClient0 = openingMap cs
       in bindE (theArray (ledger st)) (\<lambda>l.
            let byClient = foldl (partyStep ''client'' ''sale'' ''cash_in'') byClient0 l
            in Inr (foldl (\<lambda>total v. total + v) 0 (mapValues byClient))))"

definition calcPayables :: "snapshot \<Rightarrow> error + rat" where
  "calcPayables st =
     bindE (theArray (vendors st)) (\<lambda>vs.
       let byVendor0 = openingMap vs
       in bindE (theArray (ledger st)) (\<lambda>l.
            let byVendor = foldl (partyStep ''vendor'' ''purchase'' ''cash_out'') byVendor0 l
            in Inr (foldl (\<lambda>total v. total + v) 0 (mapValues byVendor))))"

subsection \<open>Totals\<close>

record totals_result =
  sales :: rat
  purchases :: rat
  cogs :: rat
  expenses :: rat
  cashIn :: rat
  cashOut :: rat
  cash :: rat
  receivable :: rat
  payable :: rat
  profit :: rat

text \<open>
  The five running sums of the loop in \<open>totals\<close>, in the order
  \<open>(sales, purchases, expenses, cashIn, cashOut)\<close>.
\<close>

type_synonym running_sums = "rat \<times> rat \<times> rat \<times> rat \<times> rat"

definition totalsStep :: "running_sums \<Rightarrow> entry \<Rightarrow> running_sums" where
  "totalsStep acc t =
     (case acc of (s, p, e, ci, co) \<Rightarrow>
        (if strictEq (type t) (JStr ''sale'') then s + safeNum (amount t) else s,
         if strictEq (type t) (JStr ''purchase'') then p + safeNum (amount t) else p,
         if strictEq (type t) (JStr ''expense'') then e + safeNum (amount t) else e,
         if strictEq (type t) (JStr ''cash_in'') then ci + safeNum (amount t) else ci,
         if strictEq (type t) (JStr ''cash_out'') then co + safeNum (amount t) else co))"

definition totals :: "snapshot \<Rightarrow> error + totals_result" where
  "totals st =
     bindE (theArray (ledger st)) (\<lambda>l.
       case foldl totalsStep (0, 0, 0, 0, 0) l of (s, p, e, ci, co) \<Rightarrow>
         bindE (sumPaid (JStr ''sale'') st) (\<lambda>paidSales.
         bindE (sumPaid (JStr ''purchase'') st) (\<lambda>paidPurchases.
         bindE (calcReceivables st) (\<lambda>rcv.
         bindE (calcPayables st) (\<lambda>pay.
         bindE (purchasesByCategory (JStr ''COGS'') st) (\<lambda>cg.
           Inr \<lparr> sales = s, purchases = p, cogs = cg, expenses = e,
                 cashIn = ci, cashOut = co,
                 cash = (paidSales + ci) - (paidPurchases + e + co),
                 receivable = rcv, payable = pay,
                 profit = s - cg - e \<rparr>))))))"

subsection \<open>Reports\<close>






subsection \<open>The balance of one party\<close>

definition balanceStep :: "jsval \<Rightarrow> jsval \<Rightarrow> rat \<Rightarrow> entry \<Rightarrow> rat" where
  "balanceStep pType pid bal t =
     (if \<not> strictEq (partyType t) pType \<or> \<not> strictEq (partyId t) pid then bal
      else if strictEq pType (JStr ''client'') then
        (let b1 = (if strictEq (type t) (JStr ''sale'')
                   then bal + (safeNum (amount t) - safeNum (paid t)) else bal)
         in if strictEq (type t) (JStr ''cash_in'') then b1 - safeNum (amount t) else b1)
      else
        (let b1 = (if strictEq (type t) (JStr ''purchase'')
                   then bal + (safeNum (amount t) - safeNum (paid t)) else bal)
         in if strictEq (type t) (JStr ''cash_out'') then b1 - safeNum (amount t) else b1))"

definition calcPartyBalance :: "jsval \<Rightarrow> jsval \<Rightarrow> snapshot \<Rightarrow> error + rat" where
  "calcPartyBalance kind pid st =
     (let pType = (if strictEq kind (JStr ''client'') then JStr ''client'' else JStr ''vendor'')
      in bindE (openingBalance pType pid st) (\<lambda>bal0.
         bindE (theArray (ledger st)) (\<lambda>l.
           Inr (foldl (balanceStep pType pid) bal0 l))))"

section \<open>Deleting a party\<close>

text \<open>
  The \<open>del\<close> branch of the click handler in \<open>bindPartyTable\<close>, once the user has
  confirmed:
  \<^verbatim>\<open>const id = tr?.dataset.id; if (!id) return;\<close>
  \<^verbatim>\<open>const list = kind === "client" ? state.clients : state.vendors;\<close>
  \<^verbatim>\<open>const idx = list.findIndex(x => x.id === id); if (idx >= 0) list.splice(idx, 1);\<close>
  The ledger is not touched.
\<close>

fun findIndex :: "('a \<Rightarrow> bool) \<Rightarrow> 'a list \<Rightarrow> int" where
  "findIndex P [] = - 1"
| "findIndex P (x # xs) =
     (if P x then 0 else (let i = findIndex P xs in if i < 0 then - 1 else i + 1))"

definition splice1 :: "int \<Rightarrow> 'a list \<Rightarrow> 'a list" where
  "splice1 idx xs = take (nat idx) xs @ drop (Suc (nat idx)) xs"

text \<open>\<^verbatim>\<open>const idx = list.findIndex(P); if (idx >= 0) list.splice(idx, 1);\<close>\<close>

definition spliceFound :: "('a \<Rightarrow> bool) \<Rightarrow> 'a list \<Rightarrow> 'a list" where
  "spliceFound P list = (let idx = findIndex P list in if 0 \<le> idx then splice1 idx list else list)"

definition deleteParty :: "jsval \<Rightarrow> jsval \<Rightarrow> snapshot \<Rightarrow> error + snapshot" where
  "deleteParty kind pid st =
     (if \<not> truthy pid then Inr st
      else bindE (theArray (if strictEq kind (JStr ''client'') then clients st else vendors st))
             (\<lambda>list.
                let list' = spliceFound (\<lambda>x. strictEq (p_id x) pid) list
                in Inr (if strictEq kind (JStr ''client'')
                        then st \<lparr> clients := Some list' \<rparr>
                        else st \<lparr> vendors := Some list' \<rparr>)))"

section \<open>Loading and importing a snapshot\<close>

text \<open>
  What \<open>JSON.parse\<close> makes of the text: it throws, or returns \<open>null\<close>, or a value that
  is not an object with keys (a boolean, number, string or array, on which reading
  \<open>company\<close> gives \<open>undefined\<close>), or an object.
\<close>

datatype parsed = ParseThrows | ParsedNull | ParsedNonObject | ParsedObject snapshot

text \<open>
  \<^verbatim>\<open>if (!st.company || !st.users || !st.ledger) return defaultState();\<close>
  in \<open>loadState\<close>, and the same test in \<open>importData\<close> before
  \<^verbatim>\<open>throw new Error("Invalid file")\<close>.
\<close>

definition migrationGuard :: "snapshot \<Rightarrow> bool" where
  "migrationGuard obj = (company obj = None \<or> users obj = None \<or> ledger obj = None)"

text \<open>\<open>raw\<close> is the stored text, already parsed; \<open>None\<close> when the key is not stored.\<close>

definition loadState :: "parsed option \<Rightarrow> snapshot" where
  "loadState raw =
     (case raw of
        None \<Rightarrow> defaultState
      | Some ParseThrows \<Rightarrow> defaultState
      | Some ParsedNull \<Rightarrow> defaultState
      | Some ParsedNonObject \<Rightarrow> defaultState
      | Some (ParsedObject st) \<Rightarrow> if migrationGuard st then defaultState else st)"

text \<open>
  The effect of \<open>importData\<close> on the chosen file: the new value of the variable
  \<open>state\<close>, what \<open>saveState\<close> wrote (if it ran), the alerts shown, and whether
  \<open>route()\<close> was reached, which renders the current page from the new state (the
  dashboard and the reports call \<open>totals\<close>, \<open>balanceSheet\<close> and \<open>cashFlow\<close>). The
  rendering itself is not modelled, nor is the further alert that the handler shows
  when the rendering throws.
\<close>

datatype alert = ImportedSuccessfully | ImportFailed error

record import_effect =
  newState :: snapshot
  saved :: "snapshot option"
  alerts :: "alert list"
  routed :: bool

definition importFails :: "snapshot \<Rightarrow> error \<Rightarrow> import_effect" where
  "importFails st err =
     \<lparr> newState = st, saved = None, alerts = [ImportFailed err], routed = False \<rparr>"

definition importData :: "parsed option \<Rightarrow> snapshot \<Rightarrow> import_effect" where
  "importData file st =
     (case file of
        None \<Rightarrow> \<lparr> newState = st, saved = None, alerts = [], routed = False \<rparr>
      | Some ParseThrows \<Rightarrow> importFails st SyntaxError
      | Some ParsedNull \<Rightarrow> importFails st TypeError
      | Some ParsedNonObject \<Rightarrow> importFails st (Error ''Invalid file'')
      | Some (ParsedObject obj) \<Rightarrow>
          if migrationGuard obj then importFails st (Error ''Invalid file'')
          else \<lparr> newState = obj, saved = Some obj, alerts = [ImportedSuccessfully],
                 routed = True \<rparr>)"

section \<open>The specification's formulas\<close>

text \<open>
  The specification's description of what one ledger entry adds to the balance of the
  party it refers to: \<open>amount - paid\<close> for a credit entry (\<open>sale\<close> for a client,
  \<open>purchase\<close> for a vendor), \<open>- amount\<close> for a settlement (\<open>cash_in\<close>, \<open>cash_out\<close>),
  nothing for any other type.
\<close>

definition partyContribution :: "string \<Rightarrow> string \<Rightarrow> entry \<Rightarrow> rat" where
  "partyContribution credit settle t =
     (if type t = JStr credit then safeNum (amount t) - safeNum (paid t)
      else if type t = JStr settle then - safeNum (amount t)
      else 0)"

text \<open>The entries whose \<open>partyType\<close> and \<open>partyId\<close> both match exactly.\<close>

definition refersTo :: "string \<Rightarrow> jsval \<Rightarrow> entry \<Rightarrow> bool" where
  "refersTo own pid t = (partyType t = JStr own \<and> strictEq (partyId t) pid)"

text \<open>The opening balance of the party with the given id, \<open>0\<close> if the party is not found.\<close>

definition openingOf :: "party list \<Rightarrow> jsval \<Rightarrow> rat" where
  "openingOf ps pid =
     (case find (\<lambda>p. p_id p = pid) ps of
        None \<Rightarrow> 0
      | Some p \<Rightarrow> safeNum (p_openingBalance p))"



text \<open>The sum of a numeric field over the entries that satisfy a condition.\<close>

definition sumOver :: "(entry \<Rightarrow> jsval) \<Rightarrow> (entry \<Rightarrow> bool) \<Rightarrow> entry list \<Rightarrow> rat" where
  "sumOver field P l = (\<Sum>t\<leftarrow>filter P l. safeNum (field t))"




section \<open>Example snapshots\<close>

definition mkParty :: "string \<Rightarrow> rat \<Rightarrow> party" where
  "mkParty i ob = \<lparr> p_id = JStr i, p_name = JStr i, p_openingBalance = JNum (Finite ob) \<rparr>"

definition mkEntry :: "string \<Rightarrow> jsval \<Rightarrow> jsval \<Rightarrow> string \<Rightarrow> rat \<Rightarrow> rat \<Rightarrow> entry" where
  "mkEntry ty pt pid cat a p =
     \<lparr> type = JStr ty, partyType = pt, partyId = pid, category = JStr cat,
       amount = JNum (Finite a), paid = JNum (Finite p) \<rparr>"

definition mkSnapshot :: "party list \<Rightarrow> party list \<Rightarrow> entry list \<Rightarrow> snapshot" where
  "mkSnapshot cs vs l = defaultState \<lparr> clients := Some cs, vendors := Some vs, ledger := Some l \<rparr>"

text \<open>The demo data of \<open>seedDemo\<close>, with short ids.\<close>

definition demoClients :: "party list" where
  "demoClients = [mkParty ''c1'' 12000, mkParty ''c2'' 0]"

definition demoVendors :: "party list" where
  "demoVendors = [mkParty ''v1'' 8000]"

definition demoLedger :: "entry list" where
  "demoLedger =
     [ mkEntry ''sale'' (JStr ''client'') (JStr ''c1'') ''Sales'' 55000 20000,
       mkEntry ''purchase'' (JStr ''vendor'') (JStr ''v1'') ''COGS'' 40000 10000,
       mkEntry ''expense'' JNull JNull ''Fuel'' 3000 3000,
       mkEntry ''cash_in'' (JStr ''client'') (JStr ''c1'') ''Receipt'' 5000 5000,
       mkEntry ''cash_out'' (JStr ''vendor'') (JStr ''v1'') ''Payment'' 7000 7000 ]"

definition demoState :: snapshot where
  "demoState = mkSnapshot demoClients demoVendors demoLedger"




text \<open>A purchase that is not tagged \<open>COGS\<close>.\<close>

definition assetPurchase :: entry where
  "assetPurchase = mkEntry ''purchase'' (JStr ''vendor'') (JStr ''v1'') ''Asset'' 900 900"

text \<open>A credit sale to the client \<open>c1\<close>, and the store before and after \<open>c1\<close> is deleted.\<close>

definition creditSale :: entry where
  "creditSale = mkEntry ''sale'' (JStr ''client'') (JStr ''c1'') ''Sales'' 1000 400"

definition creditSaleState :: snapshot where
  "creditSaleState = mkSnapshot [mkParty ''c1'' 0, mkParty ''c2'' 50] [] [creditSale]"

definition afterDeleteState :: snapshot where
  "afterDeleteState = mkSnapshot [mkParty ''c2'' 50] [] [creditSale]"







text \<open>Backup files that lack a top-level key.\<close>

definition noClientsSnapshot :: snapshot where
  "noClientsSnapshot = defaultState \<lparr> clients := None \<rparr>"

definition noLedgerSnapshot :: snapshot where
  "noLedgerSnapshot = defaultState \<lparr> ledger := None \<rparr>"

section \<open>Closed forms of the loops\<close>

lemma bindE_simps: "bindE (Inl e) f = Inl e" "bindE (Inr x) f = f x"
  by (simp_all add: bindE_def)

lemma theArray_simps: "theArray None = Inl TypeError" "theArray (Some xs) = Inr xs"
  by (simp_all add: theArray_def)

lemma strictEq_JStr: "strictEq v (JStr s) = (v = JStr s)"
  by (auto simp: strictEq_def)

lemma strictEq_truthy: "truthy b \<Longrightarrow> strictEq a b = (a = b)"
  by (auto simp: strictEq_def)

lemma foldl_plus: "foldl (\<lambda>a t. a + f t) a xs = a + sum_list (map f xs)" for a :: rat
  by (induction xs arbitrary: a) (simp_all add: algebra_simps)


lemma sumOver_Nil: "sumOver f P [] = 0"
  by (simp add: sumOver_def)

lemma sumOver_Cons: "sumOver f P (t # l) = (if P t then safeNum (f t) else 0) + sumOver f P l"
  by (simp add: sumOver_def)

lemma totalsStep_apply:
  "totalsStep (s, p, e, ci, co) t =
     (s + (if type t = JStr ''sale'' then safeNum (amount t) else 0),
      p + (if type t = JStr ''purchase'' then safeNum (amount t) else 0),
      e + (if type t = JStr ''expense'' then safeNum (amount t) else 0),
      ci + (if type t = JStr ''cash_in'' then safeNum (amount t) else 0),
      co + (if type t = JStr ''cash_out'' then safeNum (amount t) else 0))"
  by (simp add: totalsStep_def strictEq_JStr)

lemma foldl_totalsStep:
  "foldl totalsStep (s, p, e, ci, co) l =
     (s + sumOver amount (\<lambda>t. type t = JStr ''sale'') l,
      p + sumOver amount (\<lambda>t. type t = JStr ''purchase'') l,
      e + sumOver amount (\<lambda>t. type t = JStr ''expense'') l,
      ci + sumOver amount (\<lambda>t. type t = JStr ''cash_in'') l,
      co + sumOver amount (\<lambda>t. type t = JStr ''cash_out'') l)"
proof (induction l arbitrary: s p e ci co)
  case Nil
  show ?case by (simp add: sumOver_Nil)
next
  case (Cons t l)
  show ?case
    by (simp only: foldl_Cons totalsStep_apply Cons.IH sumOver_Cons add.assoc)
qed

lemma sumPaid_eq:
  "ledger st = Some l \<Longrightarrow> sumPaid (JStr ty) st = Inr (sumOver paid (\<lambda>t. type t = JStr ty) l)"
  by (simp add: sumPaid_def bindE_simps theArray_simps foldl_plus sumOver_def strictEq_JStr)

lemma jsOr_category: "(jsOr c (JStr []) = JStr ''COGS'') = (c = JStr ''COGS'')"
  by (cases c) (auto simp: jsOr_def)

lemma purchasesByCategory_COGS:
  "ledger st = Some l \<Longrightarrow>
   purchasesByCategory (JStr ''COGS'') st =
     Inr (sumOver amount (\<lambda>t. type t = JStr ''purchase'' \<and> category t = JStr ''COGS'') l)"
  by (simp add: purchasesByCategory_def bindE_simps theArray_simps foldl_plus sumOver_def
      strictEq_JStr jsOr_category)

subsection \<open>Sums of the values of a map\<close>

lemma sum_values_update:
  "sum_list (map snd (AList.update k v m)) =
     sum_list (map snd m) - (case map_of m k of Some w \<Rightarrow> w | None \<Rightarrow> 0) + v" for v :: rat
  by (induction m) auto

lemma sum_mapSet:
  "sum_list (mapValues (mapSet k v m)) =
     sum_list (mapValues m) - (case mapGet m k of Some w \<Rightarrow> w | None \<Rightarrow> 0) + v"
  by (simp add: mapValues_def mapSet_def mapGet_def sum_values_update)

lemma mapGet_mapSet: "mapGet (mapSet k v m) k' = (if k' = k then Some v else mapGet m k')"
  by (simp add: mapGet_def mapSet_def update_conv')

lemma partyStep_sum:
  assumes "credit \<noteq> settle"
  shows "sum_list (mapValues (partyStep own credit settle m t)) =
           sum_list (mapValues m) +
           (if partyType t = JStr own \<and> truthy (partyId t)
            then partyContribution credit settle t else 0)"
  using assms
  by (auto simp: partyStep_def Let_def strictEq_JStr sum_mapSet partyContribution_def
      split: option.splits)

lemma foldl_partyStep_sum:
  assumes "credit \<noteq> settle"
  shows "sum_list (mapValues (foldl (partyStep own credit settle) m l)) =
           sum_list (mapValues m) +
           (\<Sum>t\<leftarrow>filter (\<lambda>t. partyType t = JStr own \<and> truthy (partyId t)) l.
              partyContribution credit settle t)"
proof (induction l arbitrary: m)
  case Nil
  show ?case by simp
next
  case (Cons t l)
  show ?case
    by (simp add: Cons.IH partyStep_sum [OF assms])
qed

lemma calcReceivables_eq:
  assumes "clients st = Some cs" and "ledger st = Some l"
  shows "calcReceivables st =
           Inr (sum_list (mapValues (openingMap cs)) +
                (\<Sum>t\<leftarrow>filter (\<lambda>t. partyType t = JStr ''client'' \<and> truthy (partyId t)) l.
                   partyContribution ''sale'' ''cash_in'' t))"
  using assms
  by (simp add: calcReceivables_def bindE_simps theArray_simps foldl_plus foldl_partyStep_sum)

lemma calcPayables_eq:
  assumes "vendors st = Some vs" and "ledger st = Some l"
  shows "calcPayables st =
           Inr (sum_list (mapValues (openingMap vs)) +
                (\<Sum>t\<leftarrow>filter (\<lambda>t. partyType t = JStr ''vendor'' \<and> truthy (partyId t)) l.
                   partyContribution ''purchase'' ''cash_out'' t))"
  using assms
  by (simp add: calcPayables_def bindE_simps theArray_simps foldl_plus foldl_partyStep_sum)

lemma totals_eq:
  assumes "clients st = Some cs" and "vendors st = Some vs" and "ledger st = Some l"
  shows "totals st =
     Inr \<lparr> sales = sumOver amount (\<lambda>t. type t = JStr ''sale'') l,
           purchases = sumOver amount (\<lambda>t. type t = JStr ''purchase'') l,
           cogs = sumOver amount (\<lambda>t. type t = JStr ''purchase'' \<and> category t = JStr ''COGS'') l,
           expenses = sumOver amount (\<lambda>t. type t = JStr ''expense'') l,
           cashIn = sumOver amount (\<lambda>t. type t = JStr ''cash_in'') l,
           cashOut = sumOver amount (\<lambda>t. type t = JStr ''cash_out'') l,
           cash = (sumOver paid (\<lambda>t. type t = JStr ''sale'') l
                     + sumOver amount (\<lambda>t. type t = JStr ''cash_in'') l)
                  - (sumOver paid (\<lambda>t. type t = JStr ''purchase'') l
                     + sumOver amount (\<lambda>t. type t = JStr ''expense'') l
                     + sumOver amount (\<lambda>t. type t = JStr ''cash_out'') l),
           receivable = sum_list (mapValues (openingMap cs)) +
                (\<Sum>t\<leftarrow>filter (\<lambda>t. partyType t = JStr ''client'' \<and> truthy (partyId t)) l.
                   partyContribution ''sale'' ''cash_in'' t),
           payable = sum_list (mapValues (openingMap vs)) +
                (\<Sum>t\<leftarrow>filter (\<lambda>t. partyType t = JStr ''vendor'' \<and> truthy (partyId t)) l.
                   partyContribution ''purchase'' ''cash_out'' t),
           profit = sumOver amount (\<lambda>t. type t = JStr ''sale'') l
                  - sumOver amount (\<lambda>t. type t = JStr ''purchase'' \<and> category t = JStr ''COGS'') l
                  - sumOver amount (\<lambda>t. type t = JStr ''expense'') l \<rparr>"
  unfolding totals_def
  by (simp add: assms bindE_simps theArray_simps foldl_totalsStep sumPaid_eq [OF assms(3)]
      calcReceivables_eq [OF assms(1,3)] calcPayables_eq [OF assms(2,3)]
      purchasesByCategory_COGS [OF assms(3)])


lemma demoState_collections:
  "clients demoState = Some demoClients"
  "vendors demoState = Some demoVendors"
  "ledger demoState = Some demoLedger"
  by (simp_all add: demoState_def mkSnapshot_def)

section \<open>Cash and cash flow\<close>



section \<open>The flow totals\<close>

text \<open>
  C5. For every snapshot, \<open>totals\<close> returns \<open>sales\<close>, \<open>purchases\<close> and \<open>expenses\<close> as
  the sum of \<open>amount\<close> over the entries of the matching type, \<open>cashIn\<close> and \<open>cashOut\<close>
  as the sum of \<open>amount\<close> over the \<open>cash_in\<close> and \<open>cash_out\<close> entries, and \<open>cash\<close> as
  (sum of \<open>paid\<close> over the sale entries + \<open>cashIn\<close>) minus (sum of \<open>paid\<close> over the
  purchase entries + \<open>expenses\<close> + \<open>cashOut\<close>).
\<close>

theorem totals_flow_sums:
  assumes "clients st = Some cs" and "vendors st = Some vs" and "ledger st = Some l"
  shows "\<exists>t. totals st = Inr t
           \<and> sales t = sumOver amount (\<lambda>x. type x = JStr ''sale'') l
           \<and> purchases t = sumOver amount (\<lambda>x. type x = JStr ''purchase'') l
           \<and> expenses t = sumOver amount (\<lambda>x. type x = JStr ''expense'') l
           \<and> cashIn t = sumOver amount (\<lambda>x. type x = JStr ''cash_in'') l
           \<and> cashOut t = sumOver amount (\<lambda>x. type x = JStr ''cash_out'') l
           \<and> cash t = (sumOver paid (\<lambda>x. type x = JStr ''sale'') l + cashIn t)
                      - (sumOver paid (\<lambda>x. type x = JStr ''purchase'') l + expenses t + cashOut t)"
  by (simp add: totals_eq [OF assms])

theorem totals_flow_sums_witness:
  "clients demoState = Some demoClients \<and> vendors demoState = Some demoVendors
   \<and> ledger demoState = Some demoLedger
   \<and> (\<exists>t. totals demoState = Inr t
           \<and> sales t = sumOver amount (\<lambda>x. type x = JStr ''sale'') demoLedger
           \<and> purchases t = sumOver amount (\<lambda>x. type x = JStr ''purchase'') demoLedger
           \<and> expenses t = sumOver amount (\<lambda>x. type x = JStr ''expense'') demoLedger
           \<and> cashIn t = sumOver amount (\<lambda>x. type x = JStr ''cash_in'') demoLedger
           \<and> cashOut t = sumOver amount (\<lambda>x. type x = JStr ''cash_out'') demoLedger
           \<and> cash t = (sumOver paid (\<lambda>x. type x = JStr ''sale'') demoLedger + cashIn t)
                      - (sumOver paid (\<lambda>x. type x = JStr ''purchase'') demoLedger
                         + expenses t + cashOut t))"
  using totals_flow_sums [OF demoState_collections] demoState_collections
  by simp

section \<open>Cost of goods sold and profit\<close>

lemma sumOver_insert: "sumOver f P (l1 @ x # l2) = (if P x then safeNum (f x) else 0) + sumOver f P (l1 @ l2)"
  by (simp add: sumOver_def)

text \<open>
  C6. For every snapshot, the \<open>cogs\<close> figure of \<open>totals\<close> is the sum of \<open>amount\<close> over the
  purchase entries whose category is exactly the string \<open>COGS\<close> (string equality is
  case-sensitive; an entry with another category, or with none, is left out), and
  \<open>profit\<close> is \<open>sales - cogs - expenses\<close>. A purchase that is not tagged \<open>COGS\<close>, put
  anywhere into the ledger, adds to \<open>purchases\<close> and leaves \<open>cogs\<close> and \<open>profit\<close> as
  they were.
\<close>

theorem cogs_and_profit:
  assumes "clients st = Some cs" and "vendors st = Some vs" and "ledger st = Some (l1 @ l2)"
  shows "\<exists>t. totals st = Inr t
           \<and> cogs t = sumOver amount (\<lambda>x. type x = JStr ''purchase'' \<and> category x = JStr ''COGS'') (l1 @ l2)
           \<and> profit t = sales t - cogs t - expenses t
           \<and> (\<forall>x. type x = JStr ''purchase'' \<and> category x \<noteq> JStr ''COGS'' \<longrightarrow>
                  (\<exists>t'. totals (st \<lparr> ledger := Some (l1 @ x # l2) \<rparr>) = Inr t'
                        \<and> purchases t' = purchases t + safeNum (amount x)
                        \<and> cogs t' = cogs t \<and> profit t' = profit t))"
proof -
  have c: "clients (st \<lparr> ledger := Some l' \<rparr>) = Some cs"
    and v: "vendors (st \<lparr> ledger := Some l' \<rparr>) = Some vs"
    and l: "ledger (st \<lparr> ledger := Some l' \<rparr>) = Some l'" for l'
    using assms by simp_all
  show ?thesis
    by (simp add: totals_eq [OF assms] totals_eq [OF c v l] sumOver_insert)
qed

theorem cogs_and_profit_witness:
  "clients demoState = Some demoClients \<and> vendors demoState = Some demoVendors
   \<and> ledger demoState = Some ([] @ demoLedger)
   \<and> type assetPurchase = JStr ''purchase'' \<and> category assetPurchase \<noteq> JStr ''COGS''
   \<and> (\<exists>t t'. totals demoState = Inr t
          \<and> cogs t = sumOver amount (\<lambda>x. type x = JStr ''purchase'' \<and> category x = JStr ''COGS'')
                       ([] @ demoLedger)
          \<and> profit t = sales t - cogs t - expenses t
          \<and> totals (demoState \<lparr> ledger := Some ([] @ assetPurchase # demoLedger) \<rparr>) = Inr t'
          \<and> purchases t' = purchases t + safeNum (amount assetPurchase)
          \<and> cogs t' = cogs t \<and> profit t' = profit t)"
proof -
  have l: "ledger demoState = Some ([] @ demoLedger)"
    by (simp add: demoState_collections)
  have x: "type assetPurchase = JStr ''purchase'' \<and> category assetPurchase \<noteq> JStr ''COGS''"
    by (simp add: assetPurchase_def mkEntry_def)
  from cogs_and_profit [OF demoState_collections(1,2) l] x
  show ?thesis
    using demoState_collections(1,2) l by blast
qed

section \<open>The balance of one party\<close>

lemma balanceStep_client:
  "balanceStep (JStr ''client'') pid b t =
     b + (if refersTo ''client'' pid t then partyContribution ''sale'' ''cash_in'' t else 0)"
  by (simp add: balanceStep_def refersTo_def partyContribution_def strictEq_JStr Let_def)

lemma balanceStep_vendor:
  "balanceStep (JStr ''vendor'') pid b t =
     b + (if refersTo ''vendor'' pid t then partyContribution ''purchase'' ''cash_out'' t else 0)"
  by (simp add: balanceStep_def refersTo_def partyContribution_def strictEq_JStr Let_def)

lemma sum_list_if_filter:
  "(\<Sum>t\<leftarrow>l. if P t then g t else 0) = (\<Sum>t\<leftarrow>filter P l. g t)" for g :: "'a \<Rightarrow> rat"
  by (induction l) simp_all

lemma foldl_balanceStep_client:
  "foldl (balanceStep (JStr ''client'') pid) b l =
     b + (\<Sum>t\<leftarrow>filter (refersTo ''client'' pid) l. partyContribution ''sale'' ''cash_in'' t)"
proof -
  have "balanceStep (JStr ''client'') pid =
          (\<lambda>b t. b + (if refersTo ''client'' pid t then partyContribution ''sale'' ''cash_in'' t else 0))"
    by (intro ext) (rule balanceStep_client)
  then show ?thesis
    by (simp only: foldl_plus sum_list_if_filter)
qed

lemma foldl_balanceStep_vendor:
  "foldl (balanceStep (JStr ''vendor'') pid) b l =
     b + (\<Sum>t\<leftarrow>filter (refersTo ''vendor'' pid) l. partyContribution ''purchase'' ''cash_out'' t)"
proof -
  have "balanceStep (JStr ''vendor'') pid =
          (\<lambda>b t. b + (if refersTo ''vendor'' pid t then partyContribution ''purchase'' ''cash_out'' t else 0))"
    by (intro ext) (rule balanceStep_vendor)
  then show ?thesis
    by (simp only: foldl_plus sum_list_if_filter)
qed

lemma find_strictEq_truthy:
  "truthy pid \<Longrightarrow> find (\<lambda>x. strictEq (p_id x) pid) ps = find (\<lambda>p. p_id p = pid) ps"
  by (simp add: strictEq_truthy)

lemma safeNum_undefined: "safeNum JUndefined = 0"
  by (simp add: safeNum_def)

lemma openingBalance_client:
  assumes "clients st = Some cs"
  shows "openingBalance (JStr ''client'') pid st = Inr (if truthy pid then openingOf cs pid else 0)"
  using assms
  by (auto simp: openingBalance_def openingOf_def bindE_simps theArray_simps strictEq_JStr
      find_strictEq_truthy safeNum_undefined split: option.splits)

lemma openingBalance_vendor:
  assumes "vendors st = Some vs"
  shows "openingBalance (JStr ''vendor'') pid st = Inr (if truthy pid then openingOf vs pid else 0)"
  using assms
  by (auto simp: openingBalance_def openingOf_def bindE_simps theArray_simps strictEq_JStr
      find_strictEq_truthy safeNum_undefined split: option.splits)

lemma calcPartyBalance_client:
  assumes "clients st = Some cs" and "ledger st = Some l"
  shows "calcPartyBalance (JStr ''client'') pid st =
           Inr ((if truthy pid then openingOf cs pid else 0) +
                (\<Sum>t\<leftarrow>filter (refersTo ''client'' pid) l. partyContribution ''sale'' ''cash_in'' t))"
  by (simp add: calcPartyBalance_def strictEq_JStr openingBalance_client [OF assms(1)]
      bindE_simps theArray_simps assms(2) foldl_balanceStep_client)

lemma calcPartyBalance_vendor:
  assumes "vendors st = Some vs" and "ledger st = Some l"
  shows "calcPartyBalance (JStr ''vendor'') pid st =
           Inr ((if truthy pid then openingOf vs pid else 0) +
                (\<Sum>t\<leftarrow>filter (refersTo ''vendor'' pid) l. partyContribution ''purchase'' ''cash_out'' t))"
  by (simp add: calcPartyBalance_def strictEq_JStr openingBalance_vendor [OF assms(1)]
      bindE_simps theArray_simps assms(2) foldl_balanceStep_vendor)





section \<open>Receivables and payables against the party balances\<close>

subsection \<open>The map of opening balances\<close>





subsection \<open>Summing the balances of all parties\<close>














section \<open>The empty ledger\<close>



section \<open>Entries that refer to no party\<close>

lemma sum_filter_insert:
  "(\<Sum>t\<leftarrow>filter P (l1 @ x # l2). g t) = (if P x then g x else 0) + (\<Sum>t\<leftarrow>filter P (l1 @ l2). g t)"
  for g :: "'a \<Rightarrow> rat"
  by simp




section \<open>Deleting a party that entries refer to\<close>

lemma spliceFound_Nil: "spliceFound P [] = []"
  by (simp add: spliceFound_def splice1_def)

lemma spliceFound_Cons: "spliceFound P (x # xs) = (if P x then xs else x # spliceFound P xs)"
  by (auto simp: spliceFound_def Let_def splice1_def nat_add_distrib)

lemma spliceFound_no_key:
  "distinct (map p_id ps) \<Longrightarrow> pid \<notin> set (map p_id (spliceFound (\<lambda>x. p_id x = pid) ps))"
  by (induction ps) (auto simp: spliceFound_Nil spliceFound_Cons)

lemma openingOf_absent: "pid \<notin> set (map p_id ps) \<Longrightarrow> openingOf ps pid = 0"
  by (induction ps) (auto simp: openingOf_def)

lemma find_absent: "pid \<notin> set (map p_id ps) \<Longrightarrow> find (\<lambda>x. strictEq (p_id x) pid) ps = None"
  by (induction ps) (auto simp: strictEq_def)

lemma deleteParty_client:
  assumes "clients st = Some cs" and "truthy pid"
  shows "deleteParty (JStr ''client'') pid st =
           Inr (st \<lparr> clients := Some (spliceFound (\<lambda>x. p_id x = pid) cs) \<rparr>)"
  using assms
  by (simp add: deleteParty_def strictEq_JStr bindE_simps theArray_simps strictEq_truthy)

lemma deleteParty_vendor:
  assumes "vendors st = Some vs" and "truthy pid"
  shows "deleteParty (JStr ''vendor'') pid st =
           Inr (st \<lparr> vendors := Some (spliceFound (\<lambda>x. p_id x = pid) vs) \<rparr>)"
  using assms
  by (simp add: deleteParty_def strictEq_JStr bindE_simps theArray_simps strictEq_truthy)

lemma partyName_absent_client:
  assumes "clients st = Some cs" and "pid \<notin> set (map p_id cs)"
  shows "partyName (JStr ''client'') pid st = Inr (JStr ''-'')"
  using assms
  by (simp add: partyName_def strictEq_JStr bindE_simps theArray_simps find_absent jsOr_def)

lemma partyName_absent_vendor:
  assumes "vendors st = Some vs" and "pid \<notin> set (map p_id vs)"
  shows "partyName (JStr ''vendor'') pid st = Inr (JStr ''-'')"
  using assms
  by (simp add: partyName_def strictEq_JStr bindE_simps theArray_simps find_absent jsOr_def)

text \<open>
  C3 (as the code has it). After a party (its id a truthy value, the ids of its collection
  pairwise distinct) is removed from its collection, \<open>totals\<close> and \<open>balanceOf\<close> return
  without throwing; the flow totals \<open>sales\<close>, \<open>purchases\<close>, \<open>cogs\<close>, \<open>expenses\<close>, \<open>cashIn\<close>,
  \<open>cashOut\<close>, \<open>cash\<close> and \<open>profit\<close> are what they were, so every entry still contributes
  to the total of its type; the display name of the missing party is \<open>"-"\<close>; and
  \<open>balanceOf\<close> for the missing party is its opening balance taken as \<open>0\<close> plus the
  contributions of the entries that still refer to it.
\<close>

theorem deleted_party_tolerated:
  assumes "clients st = Some cs" and "vendors st = Some vs" and "ledger st = Some l"
    and "truthy pid" and "distinct (map p_id cs)" and "distinct (map p_id vs)"
  shows "(\<exists>st' t t'. deleteParty (JStr ''client'') pid st = Inr st'
            \<and> totals st = Inr t \<and> totals st' = Inr t'
            \<and> sales t' = sales t \<and> purchases t' = purchases t \<and> cogs t' = cogs t
            \<and> expenses t' = expenses t \<and> cashIn t' = cashIn t \<and> cashOut t' = cashOut t
            \<and> cash t' = cash t \<and> profit t' = profit t \<and> payable t' = payable t
            \<and> partyName (JStr ''client'') pid st' = Inr (JStr ''-'')
            \<and> calcPartyBalance (JStr ''client'') pid st' =
                Inr (\<Sum>x\<leftarrow>filter (refersTo ''client'' pid) l. partyContribution ''sale'' ''cash_in'' x))
       \<and> (\<exists>st' t t'. deleteParty (JStr ''vendor'') pid st = Inr st'
            \<and> totals st = Inr t \<and> totals st' = Inr t'
            \<and> sales t' = sales t \<and> purchases t' = purchases t \<and> cogs t' = cogs t
            \<and> expenses t' = expenses t \<and> cashIn t' = cashIn t \<and> cashOut t' = cashOut t
            \<and> cash t' = cash t \<and> profit t' = profit t \<and> receivable t' = receivable t
            \<and> partyName (JStr ''vendor'') pid st' = Inr (JStr ''-'')
            \<and> calcPartyBalance (JStr ''vendor'') pid st' =
                Inr (\<Sum>x\<leftarrow>filter (refersTo ''vendor'' pid) l. partyContribution ''purchase'' ''cash_out'' x))"
proof -
  let ?cs' = "spliceFound (\<lambda>x. p_id x = pid) cs"
  let ?vs' = "spliceFound (\<lambda>x. p_id x = pid) vs"
  let ?sc = "st \<lparr> clients := Some ?cs' \<rparr>"
  let ?sv = "st \<lparr> vendors := Some ?vs' \<rparr>"
  have c1: "clients ?sc = Some ?cs'" and v1: "vendors ?sc = Some vs" and l1: "ledger ?sc = Some l"
    and c2: "clients ?sv = Some cs" and v2: "vendors ?sv = Some ?vs'" and l2: "ledger ?sv = Some l"
    using assms(1-3) by simp_all
  have nc: "pid \<notin> set (map p_id ?cs')" and nv: "pid \<notin> set (map p_id ?vs')"
    by (rule spliceFound_no_key [OF assms(5)], rule spliceFound_no_key [OF assms(6)])
  have client: "\<exists>st' t t'. deleteParty (JStr ''client'') pid st = Inr st'
            \<and> totals st = Inr t \<and> totals st' = Inr t'
            \<and> sales t' = sales t \<and> purchases t' = purchases t \<and> cogs t' = cogs t
            \<and> expenses t' = expenses t \<and> cashIn t' = cashIn t \<and> cashOut t' = cashOut t
            \<and> cash t' = cash t \<and> profit t' = profit t \<and> payable t' = payable t
            \<and> partyName (JStr ''client'') pid st' = Inr (JStr ''-'')
            \<and> calcPartyBalance (JStr ''client'') pid st' =
                Inr (\<Sum>x\<leftarrow>filter (refersTo ''client'' pid) l. partyContribution ''sale'' ''cash_in'' x)"
    by (simp add: deleteParty_client [OF assms(1,4)] totals_eq [OF assms(1-3)]
        totals_eq [OF c1 v1 l1] partyName_absent_client [OF c1 nc]
        calcPartyBalance_client [OF c1 l1] openingOf_absent [OF nc])
  have vendor: "\<exists>st' t t'. deleteParty (JStr ''vendor'') pid st = Inr st'
            \<and> totals st = Inr t \<and> totals st' = Inr t'
            \<and> sales t' = sales t \<and> purchases t' = purchases t \<and> cogs t' = cogs t
            \<and> expenses t' = expenses t \<and> cashIn t' = cashIn t \<and> cashOut t' = cashOut t
            \<and> cash t' = cash t \<and> profit t' = profit t \<and> receivable t' = receivable t
            \<and> partyName (JStr ''vendor'') pid st' = Inr (JStr ''-'')
            \<and> calcPartyBalance (JStr ''vendor'') pid st' =
                Inr (\<Sum>x\<leftarrow>filter (refersTo ''vendor'' pid) l. partyContribution ''purchase'' ''cash_out'' x)"
    by (simp add: deleteParty_vendor [OF assms(2,4)] totals_eq [OF assms(1-3)]
        totals_eq [OF c2 v2 l2] partyName_absent_vendor [OF v2 nv]
        calcPartyBalance_vendor [OF v2 l2] openingOf_absent [OF nv])
  from client vendor show ?thesis ..
qed

theorem deleted_party_tolerated_witness:
  "clients creditSaleState = Some [mkParty ''c1'' 0, mkParty ''c2'' 50]
   \<and> vendors creditSaleState = Some [] \<and> ledger creditSaleState = Some [creditSale]
   \<and> truthy (JStr ''c1'')
   \<and> distinct (map p_id [mkParty ''c1'' 0, mkParty ''c2'' 50]) \<and> distinct (map p_id ([] :: party list))
   \<and> (\<exists>st' t t'. deleteParty (JStr ''client'') (JStr ''c1'') creditSaleState = Inr st'
            \<and> totals creditSaleState = Inr t \<and> totals st' = Inr t'
            \<and> sales t' = sales t \<and> purchases t' = purchases t \<and> cogs t' = cogs t
            \<and> expenses t' = expenses t \<and> cashIn t' = cashIn t \<and> cashOut t' = cashOut t
            \<and> cash t' = cash t \<and> profit t' = profit t \<and> payable t' = payable t
            \<and> partyName (JStr ''client'') (JStr ''c1'') st' = Inr (JStr ''-'')
            \<and> calcPartyBalance (JStr ''client'') (JStr ''c1'') st' =
                Inr (\<Sum>x\<leftarrow>filter (refersTo ''client'' (JStr ''c1'')) [creditSale].
                       partyContribution ''sale'' ''cash_in'' x))"
proof -
  have c: "clients creditSaleState = Some [mkParty ''c1'' 0, mkParty ''c2'' 50]"
    and v: "vendors creditSaleState = Some []"
    and l: "ledger creditSaleState = Some [creditSale]"
    by (simp_all add: creditSaleState_def mkSnapshot_def)
  have t: "truthy (JStr ''c1'')"
    by simp
  have dc: "distinct (map p_id [mkParty ''c1'' 0, mkParty ''c2'' 50])"
    and dv: "distinct (map p_id ([] :: party list))"
    by (simp_all add: mkParty_def)
  from deleted_party_tolerated [OF c v l t dc dv]
  show ?thesis
    using c v l t dc dv by blast
qed

text \<open>
  C3 as the claim states it fails in its middle part: after the client \<open>c1\<close> is deleted,
  the sale of \<open>1000\<close> with \<open>400\<close> paid still refers to it, and \<open>balanceOf\<close> for \<open>c1\<close>
  is \<open>600\<close>, not \<open>0\<close>.
\<close>

theorem deleted_party_balance_counterexample:
  "deleteParty (JStr ''client'') (JStr ''c1'') creditSaleState = Inr afterDeleteState
   \<and> partyType creditSale = JStr ''client'' \<and> partyId creditSale = JStr ''c1''
   \<and> ledger afterDeleteState = Some [creditSale]
   \<and> calcPartyBalance (JStr ''client'') (JStr ''c1'') afterDeleteState = Inr 600"
  by (simp add: creditSaleState_def afterDeleteState_def creditSale_def mkSnapshot_def mkParty_def
      mkEntry_def deleteParty_def bindE_def theArray_def strictEq_def spliceFound_def splice1_def
      calcPartyBalance_def openingBalance_def balanceStep_def safeNum_def defaultState_def)

section \<open>Numeric coercion\<close>




















section \<open>The guard of the loader\<close>

text \<open>
  C8 (as the code has it). A parsed object that lacks \<open>company\<close>, \<open>users\<close> or \<open>ledger\<close> is
  rejected: \<open>importData\<close> alerts \<open>Import failed: Invalid file\<close>, leaves \<open>state\<close> as it
  was, saves nothing and does not render, and \<open>loadState\<close> falls back to the default
  state. A parsed object that has these three keys is accepted whether or not it has
  \<open>clients\<close> and \<open>vendors\<close>: it becomes the state, is saved, and the page is rendered
  from it.
\<close>

theorem import_guard:
  "(company obj = None \<or> users obj = None \<or> ledger obj = None \<longrightarrow>
      importData (Some (ParsedObject obj)) st =
        \<lparr> newState = st, saved = None, alerts = [ImportFailed (Error ''Invalid file'')], routed = False \<rparr>
      \<and> loadState (Some (ParsedObject obj)) = defaultState)
   \<and> (company obj \<noteq> None \<and> users obj \<noteq> None \<and> ledger obj \<noteq> None \<longrightarrow>
      importData (Some (ParsedObject obj)) st =
        \<lparr> newState = obj, saved = Some obj, alerts = [ImportedSuccessfully], routed = True \<rparr>
      \<and> loadState (Some (ParsedObject obj)) = obj)"
  by (auto simp: importData_def loadState_def migrationGuard_def importFails_def)

theorem import_guard_witness:
  "ledger noLedgerSnapshot = None
   \<and> importData (Some (ParsedObject noLedgerSnapshot)) demoState =
        \<lparr> newState = demoState, saved = None, alerts = [ImportFailed (Error ''Invalid file'')], routed = False \<rparr>
   \<and> loadState (Some (ParsedObject noLedgerSnapshot)) = defaultState
   \<and> company noClientsSnapshot \<noteq> None \<and> users noClientsSnapshot \<noteq> None \<and> ledger noClientsSnapshot \<noteq> None
   \<and> importData (Some (ParsedObject noClientsSnapshot)) demoState =
        \<lparr> newState = noClientsSnapshot, saved = Some noClientsSnapshot, alerts = [ImportedSuccessfully], routed = True \<rparr>"
proof -
  have a: "ledger noLedgerSnapshot = None"
    by (simp add: noLedgerSnapshot_def)
  have b: "company noClientsSnapshot \<noteq> None \<and> users noClientsSnapshot \<noteq> None \<and> ledger noClientsSnapshot \<noteq> None"
    by (simp add: noClientsSnapshot_def defaultState_def)
  from import_guard [of noLedgerSnapshot demoState] import_guard [of noClientsSnapshot demoState] a b
  show ?thesis by blast
qed

text \<open>
  C8 as the claim states it fails for the key \<open>clients\<close>: a backup that lacks it is
  imported, replaces the state, the page is rendered from it, and \<open>totals\<close> on it throws.
\<close>

theorem import_missing_clients_counterexample:
  "clients noClientsSnapshot = None
   \<and> newState (importData (Some (ParsedObject noClientsSnapshot)) demoState) = noClientsSnapshot
   \<and> alerts (importData (Some (ParsedObject noClientsSnapshot)) demoState) = [ImportedSuccessfully]
   \<and> routed (importData (Some (ParsedObject noClientsSnapshot)) demoState)
   \<and> noClientsSnapshot \<noteq> demoState
   \<and> totals noClientsSnapshot = Inl TypeError"
  by (simp add: noClientsSnapshot_def defaultState_def importData_def migrationGuard_def
      demoState_def mkSnapshot_def totals_def bindE_def theArray_def sumPaid_def calcReceivables_def)

end
